theory Spec2Isabelle
  imports Main "HOL-Library.Word"
begin

section \<open>Strings and bytes of the Python program\<close>

text \<open>
  A Python \<open>str\<close> is a sequence of Unicode code points and \<open>len\<close> counts code points,
  so a string is a list of code points (natural numbers). A \<open>bytes\<close> value is a list of
  8-bit words. ASCII literals of the source are written with \<open>of_ascii\<close>.
\<close>

type_synonym pystr = "nat list"
type_synonym bytes = "8 word list"

definition of_ascii :: "string \<Rightarrow> pystr" where
  "of_ascii s = map of_char s"

text \<open>
  \<open>str.strip()\<close> without arguments removes the characters for which \<open>str.isspace\<close>
  holds: the ASCII controls 9-13 and 28-31, the space, and the Unicode separators.
\<close>

definition isspace :: "nat \<Rightarrow> bool" where
  "isspace c \<longleftrightarrow>
     (9 \<le> c \<and> c \<le> 13) \<or> (28 \<le> c \<and> c \<le> 32) \<or> c = 133 \<or> c = 160 \<or> c = 5760 \<or>
     (8192 \<le> c \<and> c \<le> 8202) \<or> c = 8232 \<or> c = 8233 \<or> c = 8239 \<or> c = 8287 \<or> c = 12288"

definition lstrip :: "pystr \<Rightarrow> pystr" where
  "lstrip s = dropWhile isspace s"

definition rstrip :: "pystr \<Rightarrow> pystr" where
  "rstrip s = rev (dropWhile isspace (rev s))"

definition strip :: "pystr \<Rightarrow> pystr" where
  "strip s = rstrip (lstrip s)"

definition startswith :: "pystr \<Rightarrow> pystr \<Rightarrow> bool" where
  "startswith s p \<longleftrightarrow> take (length p) s = p"

definition endswith :: "pystr \<Rightarrow> pystr \<Rightarrow> bool" where
  "endswith s p \<longleftrightarrow> length p \<le> length s \<and> drop (length s - length p) s = p"

definition newline :: nat where
  "newline = 10"

text \<open>\<open>s.split('\n')\<close>: the pieces between newlines; the empty string gives one empty piece.\<close>

fun split_nl :: "pystr \<Rightarrow> pystr list" where
  "split_nl [] = [[]]"
| "split_nl (c # cs) =
     (if c = newline then [] # split_nl cs
      else (case split_nl cs of [] \<Rightarrow> [[c]] | l # ls \<Rightarrow> (c # l) # ls))"

text \<open>\<open>s.split()\<close>: the maximal runs of characters that are not whitespace.\<close>

fun split_ws_from :: "pystr \<Rightarrow> pystr \<Rightarrow> pystr list" where
  "split_ws_from w [] = (if w = [] then [] else [w])"
| "split_ws_from w (c # cs) =
     (if isspace c then (if w = [] then split_ws_from [] cs else w # split_ws_from [] cs)
      else split_ws_from (w @ [c]) cs)"

definition split_ws :: "pystr \<Rightarrow> pystr list" where
  "split_ws s = split_ws_from [] s"

section \<open>Exceptions\<close>

text \<open>
  \<open>HTTPException\<close> carries its status code and detail. Every other exception is
  represented by the text \<open>str(e)\<close> gives for it, which is all the program reads of it.
\<close>

datatype exn = HTTPException nat pystr | PyException pystr

section \<open>The two PDF libraries\<close>

text \<open>
  The libraries are outside the repository, so a decoder is a parameter: opening a byte
  stream either raises or gives the pages, and reading the text of a page gives a
  string (possibly empty), \<open>None\<close>, or raises. Closing a document is taken not to raise.
\<close>

datatype page = PageText pystr | PageNone | PageRaise pystr

type_synonym decoder = "bytes \<Rightarrow> pystr + page list"

text \<open>
  Standard output is a parameter as well: \<open>print\<close> of a line either returns or raises
  (a console encoding that cannot encode the line), and the parameter gives the text of
  the exception in that case. Every line the program prints is ASCII by construction
  (fixed text, decimal numbers, a preview encoded to ASCII with the rest ignored) and
  printing it is taken to return, with one exception: the warning in the \<open>except\<close>
  clause of the first \<open>try\<close> block, which carries \<open>str(e)\<close> of the library's exception.
\<close>

type_synonym printer = "pystr \<Rightarrow> pystr option"

definition pymupdf_warning :: "pystr \<Rightarrow> pystr" where
  "pymupdf_warning e =
     of_ascii ''[WARN] PyMuPDF failed: '' @ e @ of_ascii '', trying pdfplumber...''"

text \<open>
  The page loop of both strategies: \<open>if page_text: text += page_text + "\n"\<close>. The
  variable \<open>text\<close> is the state; an exception leaves it as it was at the raise.
\<close>

fun page_loop :: "pystr \<Rightarrow> page list \<Rightarrow> pystr \<times> pystr option" where
  "page_loop text [] = (text, None)"
| "page_loop text (PageRaise e # ps) = (text, Some e)"
| "page_loop text (PageNone # ps) = page_loop text ps"
| "page_loop text (PageText page_text # ps) =
     (if page_text \<noteq> [] then page_loop (text @ page_text @ [newline]) ps
      else page_loop text ps)"

datatype attempt = Returned pystr | Rejected | Failed pystr | Escaped pystr

text \<open>
  The \<open>except\<close> clause of the first \<open>try\<close> block: it prints the warning with the text
  of the exception. When the \<open>print\<close> returns, control falls through to the second
  block (\<open>Failed\<close>); when it raises, that exception leaves the function (\<open>Escaped\<close>),
  since the clause is not inside the second \<open>try\<close>.
\<close>

definition pymupdf_except :: "printer \<Rightarrow> pystr \<Rightarrow> attempt" where
  "pymupdf_except print e =
     (case print (pymupdf_warning e) of None \<Rightarrow> Failed e | Some m \<Rightarrow> Escaped m)"

text \<open>
  The first \<open>try\<close> statement: \<open>Returned\<close> is its \<open>return text.strip()\<close>, \<open>Rejected\<close>
  the \<open>else\<close> branch of the quality check, and an exception of the library goes to the
  \<open>except\<close> clause. The first component is the variable \<open>text\<close> afterwards.
\<close>

definition try_pymupdf :: "printer \<Rightarrow> decoder \<Rightarrow> bytes \<Rightarrow> pystr \<Rightarrow> pystr \<times> attempt" where
  "try_pymupdf print fitz_open file_content text =
     (case fitz_open file_content of
        Inl e \<Rightarrow> (text, pymupdf_except print e)
      | Inr doc \<Rightarrow>
          (case page_loop text doc of
             (text', Some e) \<Rightarrow> (text', pymupdf_except print e)
           | (text', None) \<Rightarrow>
               if strip text' \<noteq> [] \<and> \<not> startswith (strip text') (of_ascii ''(cid:'')
               then (text', Returned (strip text'))
               else (text', Rejected)))"

definition no_text_message :: pystr where
  "no_text_message = of_ascii
     ''No text could be extracted from the PDF. The PDF might be image-based or scanned.''"

definition extraction_error :: "pystr \<Rightarrow> exn" where
  "extraction_error e = PyException (of_ascii ''Error extracting text from PDF: '' @ e)"

text \<open>
  The second \<open>try\<close> block. It assigns \<open>text = ""\<close> before opening the stream, and its
  \<open>except\<close> clause wraps every exception, the \<open>ValueError\<close> of the empty result included.
\<close>

definition try_pdfplumber :: "decoder \<Rightarrow> bytes \<Rightarrow> pystr \<Rightarrow> exn + pystr" where
  "try_pdfplumber plumber_open file_content text =
     (let text = [] in
      case plumber_open file_content of
        Inl e \<Rightarrow> Inl (extraction_error e)
      | Inr pdf \<Rightarrow>
          (case page_loop text pdf of
             (text', Some e) \<Rightarrow> Inl (extraction_error e)
           | (text', None) \<Rightarrow>
               if strip text' = [] then Inl (extraction_error no_text_message)
               else Inr (strip text')))"

definition extract_text_from_pdf :: "printer \<Rightarrow> decoder \<Rightarrow> decoder \<Rightarrow> bytes \<Rightarrow> exn + pystr" where
  "extract_text_from_pdf print fitz_open plumber_open file_content =
     (let text = [] in
      case try_pymupdf print fitz_open file_content text of
        (text', Returned r) \<Rightarrow> Inr r
      | (text', Rejected) \<Rightarrow> try_pdfplumber plumber_open file_content text'
      | (text', Failed e) \<Rightarrow> try_pdfplumber plumber_open file_content text'
      | (text', Escaped m) \<Rightarrow> Inl (PyException m))"

section \<open>The generation collaborator\<close>

text \<open>
  The chat client is outside the repository. Both prompt templates are fixed texts
  around the language, the question count and the truncated document text, so a request
  is those values; the answer is the content of the first choice, or the text of the
  exception the call raised.
\<close>

datatype prompt = SummaryPrompt pystr pystr | QuestionsPrompt int pystr pystr

type_synonym client = "prompt \<Rightarrow> pystr + pystr"

definition generate_summary :: "client \<Rightarrow> pystr \<Rightarrow> pystr \<Rightarrow> exn + pystr" where
  "generate_summary client text language =
     (let text_to_send = (if length text > 16000 then take 16000 text else text) in
      case client (SummaryPrompt language text_to_send) of
        Inl e \<Rightarrow> Inl (PyException (of_ascii ''Error generating summary with OpenAI: '' @ e))
      | Inr content \<Rightarrow> Inr (strip content))"

text \<open>
  Lines 237 to 241 of the source: strip the whole answer, split it at newlines, keep the
  stripped form of every piece whose stripped form is not empty, then drop empty
  entries once more.
\<close>

definition parse_questions :: "pystr \<Rightarrow> pystr list" where
  "parse_questions content =
     (let questions_text = strip content;
          questions = map strip (filter (\<lambda>q. strip q \<noteq> []) (split_nl questions_text))
      in filter (\<lambda>q. q \<noteq> []) questions)"

definition generate_questions :: "client \<Rightarrow> pystr \<Rightarrow> int \<Rightarrow> pystr \<Rightarrow> exn + pystr list" where
  "generate_questions client text num_questions language =
     (let text_to_send = (if length text > 16000 then take 16000 text else text) in
      case client (QuestionsPrompt num_questions language text_to_send) of
        Inl e \<Rightarrow> Inl (PyException (of_ascii ''Error generating questions with OpenAI: '' @ e))
      | Inr content \<Rightarrow> Inr (parse_questions content))"

section \<open>Request validation and the three operations\<close>

record upload_file =
  filename :: pystr
  content :: bytes

definition MAX_FILE_SIZE_MB :: nat where
  "MAX_FILE_SIZE_MB = 70"

definition MAX_FILE_SIZE_BYTES :: nat where
  "MAX_FILE_SIZE_BYTES = MAX_FILE_SIZE_MB * 1024 * 1024"

text \<open>
  The four bad-request errors. The detail of the size error is an f-string over
  \<open>MAX_FILE_SIZE_MB\<close>, which is 70.
\<close>

definition no_file_error :: exn where
  "no_file_error = HTTPException 400 (of_ascii ''No file uploaded'')"

definition extension_error :: exn where
  "extension_error = HTTPException 400 (of_ascii ''Only PDF files are allowed'')"

definition size_error :: exn where
  "size_error = HTTPException 400 (of_ascii ''File size exceeds 70 MB limit'')"

definition count_error :: exn where
  "count_error = HTTPException 400 (of_ascii ''Number of questions must be between 1 and 50'')"

definition validate_pdf_upload :: "upload_file option \<Rightarrow> exn + unit" where
  "validate_pdf_upload file =
     (case file of
        None \<Rightarrow> Inl no_file_error
      | Some f \<Rightarrow>
          if \<not> endswith (filename f) (of_ascii ''.pdf'') then Inl extension_error
          else Inr ())"

text \<open>
  The body of a JSON response is a dictionary literal: an association list in the order
  of the source, with the source's keys.
\<close>

datatype json = JBool bool | JStr pystr | JInt int | JList "json list"

type_synonym json_object = "(string \<times> json) list"

text \<open>
  What an operation did before it finished: reading the upload, calling
  \<open>extract_text_from_pdf\<close>, calling the generation function. An operation gives the
  calls it made, in order, and the response or the exception that leaves it.
\<close>

datatype event = ReadFile | Extract | Generate

type_synonym 'a traced = "event list \<times> (exn + 'a)"

definition text_preview :: "pystr \<Rightarrow> pystr" where
  "text_preview extracted_text =
     (if length extracted_text > 200 then take 200 extracted_text @ of_ascii ''...''
      else extracted_text)"

text \<open>
  After \<open>validate_pdf_upload\<close> has returned, \<open>file\<close> is an upload; on \<open>None\<close> the call
  \<open>file.read()\<close> would raise an \<open>AttributeError\<close>.
\<close>

definition none_read_error :: exn where
  "none_read_error =
     PyException ([39] @ of_ascii ''NoneType'' @ [39] @ of_ascii '' object has no attribute '' @
                  [39] @ of_ascii ''read'' @ [39])"

definition summary_body ::
  "printer \<Rightarrow> decoder \<Rightarrow> decoder \<Rightarrow> client \<Rightarrow> upload_file option \<Rightarrow> pystr \<Rightarrow> json_object traced" where
  "summary_body print fitz_open plumber_open client file language =
     (case validate_pdf_upload file of
        Inl e \<Rightarrow> ([], Inl e)
      | Inr _ \<Rightarrow>
          (case file of
             None \<Rightarrow> ([], Inl none_read_error)
           | Some f \<Rightarrow>
               let file_content = content f in
               if length file_content > MAX_FILE_SIZE_BYTES then ([ReadFile], Inl size_error)
               else
                 (case extract_text_from_pdf print fitz_open plumber_open file_content of
                    Inl e \<Rightarrow> ([ReadFile, Extract], Inl e)
                  | Inr extracted_text \<Rightarrow>
                      (case generate_summary client extracted_text language of
                         Inl e \<Rightarrow> ([ReadFile, Extract, Generate], Inl e)
                       | Inr summary \<Rightarrow>
                           ([ReadFile, Extract, Generate],
                            Inr [(''success'', JBool True),
                                 (''filename'', JStr (filename f)),
                                 (''summary'', JStr summary),
                                 (''language'', JStr language),
                                 (''extracted_chars'', JInt (int (length extracted_text))),
                                 (''text_preview'', JStr (text_preview extracted_text))])))))"

text \<open>
  The handlers of the two upload operations: \<open>except HTTPException as e: raise e\<close>, then
  \<open>except Exception\<close> turning every other exception into status 500.
\<close>

definition processing_error :: "exn \<Rightarrow> exn" where
  "processing_error e =
     (case e of
        HTTPException status detail \<Rightarrow> HTTPException status detail
      | PyException m \<Rightarrow> HTTPException 500 (of_ascii ''Error processing PDF: '' @ m))"

definition upload_summary ::
  "printer \<Rightarrow> decoder \<Rightarrow> decoder \<Rightarrow> client \<Rightarrow> upload_file option \<Rightarrow> pystr \<Rightarrow> json_object traced" where
  "upload_summary print fitz_open plumber_open client file language =
     (case summary_body print fitz_open plumber_open client file language of
        (evs, Inl e) \<Rightarrow> (evs, Inl (processing_error e))
      | (evs, Inr response) \<Rightarrow> (evs, Inr response))"

definition questions_body ::
  "printer \<Rightarrow> decoder \<Rightarrow> decoder \<Rightarrow> client \<Rightarrow> upload_file option \<Rightarrow> int \<Rightarrow> pystr \<Rightarrow> json_object traced" where
  "questions_body print fitz_open plumber_open client file num_questions language =
     (case validate_pdf_upload file of
        Inl e \<Rightarrow> ([], Inl e)
      | Inr _ \<Rightarrow>
          if num_questions < 1 \<or> num_questions > 50 then ([], Inl count_error)
          else
            (case file of
               None \<Rightarrow> ([], Inl none_read_error)
             | Some f \<Rightarrow>
                 let file_content = content f in
                 if length file_content > MAX_FILE_SIZE_BYTES then ([ReadFile], Inl size_error)
                 else
                   (case extract_text_from_pdf print fitz_open plumber_open file_content of
                      Inl e \<Rightarrow> ([ReadFile, Extract], Inl e)
                    | Inr extracted_text \<Rightarrow>
                        (case generate_questions client extracted_text num_questions language of
                           Inl e \<Rightarrow> ([ReadFile, Extract, Generate], Inl e)
                         | Inr questions \<Rightarrow>
                             ([ReadFile, Extract, Generate],
                              Inr [(''success'', JBool True),
                                   (''filename'', JStr (filename f)),
                                   (''questions'', JList (map JStr questions)),
                                   (''num_questions'', JInt num_questions),
                                   (''language'', JStr language),
                                   (''extracted_chars'', JInt (int (length extracted_text))),
                                   (''text_preview'', JStr (text_preview extracted_text))])))))"

definition upload_questions ::
  "printer \<Rightarrow> decoder \<Rightarrow> decoder \<Rightarrow> client \<Rightarrow> upload_file option \<Rightarrow> int \<Rightarrow> pystr \<Rightarrow> json_object traced" where
  "upload_questions print fitz_open plumber_open client file num_questions language =
     (case questions_body print fitz_open plumber_open client file num_questions language of
        (evs, Inl e) \<Rightarrow> (evs, Inl (processing_error e))
      | (evs, Inr response) \<Rightarrow> (evs, Inr response))"

definition extract_body ::
  "printer \<Rightarrow> decoder \<Rightarrow> decoder \<Rightarrow> upload_file option \<Rightarrow> json_object traced" where
  "extract_body print fitz_open plumber_open file =
     (case validate_pdf_upload file of
        Inl e \<Rightarrow> ([], Inl e)
      | Inr _ \<Rightarrow>
          (case file of
             None \<Rightarrow> ([], Inl none_read_error)
           | Some f \<Rightarrow>
               let file_content = content f in
               if length file_content > MAX_FILE_SIZE_BYTES then ([ReadFile], Inl size_error)
               else
                 (case extract_text_from_pdf print fitz_open plumber_open file_content of
                    Inl e \<Rightarrow> ([ReadFile, Extract], Inl e)
                  | Inr extracted_text \<Rightarrow>
                      ([ReadFile, Extract],
                       Inr [(''success'', JBool True),
                            (''filename'', JStr (filename f)),
                            (''total_characters'', JInt (int (length extracted_text))),
                            (''total_words'', JInt (int (length (split_ws extracted_text)))),
                            (''first_500_chars'', JStr (take 500 extracted_text)),
                            (''last_500_chars'',
                             JStr (if length extracted_text > 500
                                   then drop (length extracted_text - 500) extracted_text
                                   else extracted_text)),
                            (''full_text_length'', JInt (int (length extracted_text)))]))))"

text \<open>
  The handler of the extract-only operation has the single clause \<open>except Exception\<close>.
  \<open>HTTPException\<close> is a subclass of \<open>Exception\<close>, so it is caught there as well; the
  text \<open>str(e)\<close> of an \<open>HTTPException\<close> is the web framework's and is a parameter.
\<close>

definition str_exn :: "(nat \<Rightarrow> pystr \<Rightarrow> pystr) \<Rightarrow> exn \<Rightarrow> pystr" where
  "str_exn http_str e =
     (case e of HTTPException status detail \<Rightarrow> http_str status detail | PyException m \<Rightarrow> m)"

definition test_extract ::
  "printer \<Rightarrow> (nat \<Rightarrow> pystr \<Rightarrow> pystr) \<Rightarrow> decoder \<Rightarrow> decoder \<Rightarrow> upload_file option \<Rightarrow> json_object traced" where
  "test_extract print http_str fitz_open plumber_open file =
     (case extract_body print fitz_open plumber_open file of
        (evs, Inl e) \<Rightarrow> (evs, Inl (HTTPException 500 (of_ascii ''Error: '' @ str_exn http_str e)))
      | (evs, Inr response) \<Rightarrow> (evs, Inr response))"

section \<open>Descriptions of the decoders' output and of the validations\<close>

text \<open>
  The text layer of a page (empty when the library gives \<open>None\<close>), and the first
  exception a document's pages raise, if any.
\<close>

fun page_layer :: "page \<Rightarrow> pystr" where
  "page_layer (PageText t) = t"
| "page_layer PageNone = []"
| "page_layer (PageRaise e) = []"

fun first_raise :: "page list \<Rightarrow> pystr option" where
  "first_raise [] = None"
| "first_raise (PageRaise e # ps) = Some e"
| "first_raise (PageText t # ps) = first_raise ps"
| "first_raise (PageNone # ps) = first_raise ps"

text \<open>
  The per-page output joined with a newline after the text layer of every page, as the
  specification words it, and the same with the pages of empty text layer left out.
\<close>

definition joined_pages :: "page list \<Rightarrow> pystr" where
  "joined_pages ps = concat (map (\<lambda>p. page_layer p @ [newline]) ps)"

definition joined_nonempty_pages :: "page list \<Rightarrow> pystr" where
  "joined_nonempty_pages ps = joined_pages (filter (\<lambda>p. page_layer p \<noteq> []) ps)"

text \<open>
  What a decoder produces for a byte stream under the program's page loop: the error of
  opening it or of the first page that raises, and otherwise the join of its pages with
  a non-empty text layer, each followed by a newline (\<open>joined_nonempty_pages\<close>, not the
  join over every page).
\<close>

definition decoder_output :: "decoder \<Rightarrow> bytes \<Rightarrow> pystr + pystr" where
  "decoder_output decoder file_content =
     (case decoder file_content of
        Inl e \<Rightarrow> Inl e
      | Inr doc \<Rightarrow>
          (case first_raise doc of
             Some e \<Rightarrow> Inl e
           | None \<Rightarrow> Inr (joined_nonempty_pages doc)))"

text \<open>The quality gate of the specification, on an accumulated text.\<close>

definition passes_gate :: "pystr \<Rightarrow> bool" where
  "passes_gate t \<longleftrightarrow> strip t \<noteq> [] \<and> \<not> startswith (strip t) (of_ascii ''(cid:'')"

text \<open>
  The outcome of the fallback strategy in terms of the secondary decoder's output alone.
\<close>

definition fallback_result :: "pystr + pystr \<Rightarrow> exn + pystr" where
  "fallback_result out =
     (case out of
        Inl e \<Rightarrow> Inl (extraction_error e)
      | Inr t \<Rightarrow> if strip t = [] then Inl (extraction_error no_text_message) else Inr (strip t))"

text \<open>Python's \<open>sub in s\<close> on strings.\<close>

definition contains :: "pystr \<Rightarrow> pystr \<Rightarrow> bool" where
  "contains s sub \<longleftrightarrow> list_ex (\<lambda>i. startswith (drop i s) sub) [0..<Suc (length s)]"

text \<open>
  The question list as the specification words it: split at newlines, strip every line,
  remove the blank ones.
\<close>

definition split_questions :: "pystr \<Rightarrow> pystr list" where
  "split_questions response = filter (\<lambda>q. q \<noteq> []) (map strip (split_nl response))"

text \<open>
  The four constraints on a question request, what it means to violate each, the error
  reported for each, and the first violated constraint along a given order of checks.
\<close>

datatype constraint = FileSupplied | PdfExtension | SizeLimit | CountRange

fun violates :: "upload_file option \<Rightarrow> int \<Rightarrow> constraint \<Rightarrow> bool" where
  "violates file n FileSupplied \<longleftrightarrow> file = None"
| "violates file n PdfExtension \<longleftrightarrow>
     (case file of None \<Rightarrow> False | Some f \<Rightarrow> \<not> endswith (filename f) (of_ascii ''.pdf''))"
| "violates file n SizeLimit \<longleftrightarrow>
     (case file of None \<Rightarrow> False | Some f \<Rightarrow> length (content f) > 70 * 1024 * 1024)"
| "violates file n CountRange \<longleftrightarrow> n < 1 \<or> n > 50"

fun constraint_error :: "constraint \<Rightarrow> exn" where
  "constraint_error FileSupplied = no_file_error"
| "constraint_error PdfExtension = extension_error"
| "constraint_error SizeLimit = size_error"
| "constraint_error CountRange = count_error"

definition first_violation :: "constraint list \<Rightarrow> upload_file option \<Rightarrow> int \<Rightarrow> constraint option" where
  "first_violation order file n = find (violates file n) order"

definition spec_order :: "constraint list" where
  "spec_order = [FileSupplied, PdfExtension, SizeLimit, CountRange]"

definition questions_order :: "constraint list" where
  "questions_order = [FileSupplied, PdfExtension, CountRange, SizeLimit]"

section \<open>Example inputs\<close>

definition print_ok :: printer where
  "print_ok line = None"

definition ascii_print :: printer where
  "ascii_print line =
     (if list_all (\<lambda>c. c < 128) line then None
      else Some (of_ascii ''ascii codec cannot encode character''))"

definition gap_document :: "page list" where
  "gap_document = [PageText (of_ascii ''a''), PageText [], PageText (of_ascii ''b'')]"

definition gap_decoder :: decoder where
  "gap_decoder file_content = Inr gap_document"

definition broken_decoder :: "pystr \<Rightarrow> decoder" where
  "broken_decoder e file_content = Inl e"

definition blank_decoder :: decoder where
  "blank_decoder file_content = Inr [PageText (of_ascii ''  ''), PageNone]"

definition cid_decoder :: decoder where
  "cid_decoder file_content = Inr [PageText (of_ascii ''(cid:12)(cid:7)'')]"

definition two_page_decoder :: decoder where
  "two_page_decoder file_content =
     Inr [PageText (of_ascii '' Hello''), PageText (of_ascii ''World '')]"

definition two_line_client :: client where
  "two_line_client p = Inr (of_ascii '' Q1?'' @ [newline, newline] @ of_ascii '' Q2? '' @ [newline])"

definition sample_upload :: upload_file where
  "sample_upload = \<lparr>filename = of_ascii ''notes.pdf'', content = [37, 80, 68, 70]\<rparr>"

definition oversize_upload :: upload_file where
  "oversize_upload = \<lparr>filename = of_ascii ''big.pdf'', content = replicate 73400321 0\<rparr>"

section \<open>Stripping and the page loop\<close>

lemma lstrip_Cons: "lstrip (c # s) = (if isspace c then lstrip s else c # s)"
  by (simp add: lstrip_def)

lemma rstrip_snoc: "rstrip (s @ [c]) = (if isspace c then rstrip s else s @ [c])"
  by (simp add: rstrip_def)

lemma rstrip_Nil: "rstrip [] = []"
  by (simp add: rstrip_def)

lemma rstrip_last: "rstrip s \<noteq> [] \<Longrightarrow> \<not> isspace (last (rstrip s))"
  by (induction s rule: rev_induct) (auto simp: rstrip_Nil rstrip_snoc split: if_splits)

lemma rstrip_hd: "rstrip s \<noteq> [] \<Longrightarrow> hd (rstrip s) = hd s"
proof (induction s rule: rev_induct)
  case Nil
  then show ?case by (simp add: rstrip_Nil)
next
  case (snoc c s)
  then show ?case
  proof (cases "s = []")
    case True
    with snoc.prems show ?thesis by (simp add: rstrip_def split: if_splits)
  next
    case False
    with snoc show ?thesis by (auto simp: rstrip_snoc rstrip_Nil split: if_splits)
  qed
qed

lemma lstrip_hd: "lstrip s \<noteq> [] \<Longrightarrow> \<not> isspace (hd (lstrip s))"
  unfolding lstrip_def using hd_dropWhile by blast

lemma strip_hd: "strip s \<noteq> [] \<Longrightarrow> \<not> isspace (hd (strip s))"
proof -
  assume ne: "strip s \<noteq> []"
  then have l: "lstrip s \<noteq> []"
    by (auto simp: strip_def rstrip_Nil)
  from ne have "hd (strip s) = hd (lstrip s)"
    unfolding strip_def by (rule rstrip_hd)
  with lstrip_hd [OF l] show ?thesis by simp
qed

lemma strip_last: "strip s \<noteq> [] \<Longrightarrow> \<not> isspace (last (strip s))"
  unfolding strip_def by (rule rstrip_last)

lemma lstrip_fixed: "s \<noteq> [] \<Longrightarrow> \<not> isspace (hd s) \<Longrightarrow> lstrip s = s"
  by (cases s) (simp_all add: lstrip_def)

lemma rstrip_fixed: "s \<noteq> [] \<Longrightarrow> \<not> isspace (last s) \<Longrightarrow> rstrip s = s"
  by (induction s rule: rev_induct) (simp_all add: rstrip_snoc)

lemma strip_fixed: "s \<noteq> [] \<Longrightarrow> \<not> isspace (hd s) \<Longrightarrow> \<not> isspace (last s) \<Longrightarrow> strip s = s"
  by (simp add: strip_def lstrip_fixed rstrip_fixed)

lemma strip_Nil: "strip [] = []"
  by (simp add: strip_def lstrip_def rstrip_def)

lemma strip_idem: "strip (strip s) = strip s"
  by (cases "strip s = []") (simp_all add: strip_Nil strip_fixed strip_hd strip_last)

lemma page_loop_no_raise:
  "first_raise ps = None \<Longrightarrow> page_loop t ps = (t @ joined_nonempty_pages ps, None)"
  by (induction t ps rule: page_loop.induct)
     (simp_all add: joined_nonempty_pages_def joined_pages_def)

lemma page_loop_raise: "first_raise ps = Some e \<Longrightarrow> snd (page_loop t ps) = Some e"
  by (induction t ps rule: page_loop.induct) simp_all

lemma try_pdfplumber_output:
  "try_pdfplumber plumber_open file_content t0 = fallback_result (decoder_output plumber_open file_content)"
proof (cases "plumber_open file_content")
  case (Inl e)
  then show ?thesis
    by (simp add: try_pdfplumber_def fallback_result_def decoder_output_def)
next
  case (Inr pdf)
  show ?thesis
  proof (cases "first_raise pdf")
    case None
    with Inr show ?thesis
      by (simp add: try_pdfplumber_def fallback_result_def decoder_output_def page_loop_no_raise)
  next
    case (Some e)
    from page_loop_raise [OF Some, of "[]"] obtain t where "page_loop [] pdf = (t, Some e)"
      by (cases "page_loop [] pdf") simp
    with Inr Some show ?thesis
      by (simp add: try_pdfplumber_def fallback_result_def decoder_output_def)
  qed
qed

lemma try_pymupdf_output:
  "snd (try_pymupdf print fitz_open file_content []) =
     (case decoder_output fitz_open file_content of
        Inl e \<Rightarrow> pymupdf_except print e
      | Inr t \<Rightarrow> if passes_gate t then Returned (strip t) else Rejected)"
proof (cases "fitz_open file_content")
  case (Inl e)
  then show ?thesis
    by (simp add: try_pymupdf_def decoder_output_def)
next
  case (Inr doc)
  show ?thesis
  proof (cases "first_raise doc")
    case None
    with Inr show ?thesis
      by (simp add: try_pymupdf_def decoder_output_def page_loop_no_raise passes_gate_def)
  next
    case (Some e)
    from page_loop_raise [OF Some, of "[]"] obtain t where "page_loop [] doc = (t, Some e)"
      by (cases "page_loop [] doc") simp
    with Inr Some show ?thesis
      by (simp add: try_pymupdf_def decoder_output_def)
  qed
qed

lemma extract_by_outputs:
  "extract_text_from_pdf print fitz_open plumber_open file_content =
     (case decoder_output fitz_open file_content of
        Inl e \<Rightarrow>
          (case print (pymupdf_warning e) of
             None \<Rightarrow> fallback_result (decoder_output plumber_open file_content)
           | Some m \<Rightarrow> Inl (PyException m))
      | Inr t \<Rightarrow> if passes_gate t then Inr (strip t)
                else fallback_result (decoder_output plumber_open file_content))"
proof -
  obtain text' a where ta: "try_pymupdf print fitz_open file_content [] = (text', a)"
    by (cases "try_pymupdf print fitz_open file_content []")
  have a: "a = (case decoder_output fitz_open file_content of
        Inl e \<Rightarrow> pymupdf_except print e
      | Inr t \<Rightarrow> if passes_gate t then Returned (strip t) else Rejected)"
    using try_pymupdf_output [of print fitz_open file_content] ta by simp
  show ?thesis
    by (simp add: extract_text_from_pdf_def ta a try_pdfplumber_output pymupdf_except_def
          split: sum.splits option.splits)
qed

text \<open>
  When the library's exception is caught but printing its warning raises, that second
  exception leaves \<open>extract_text_from_pdf\<close> as it is, and the fallback does not run.
\<close>

lemma warning_print_escapes:
  "decoder_output fitz_open file_content = Inl e \<Longrightarrow> print (pymupdf_warning e) = Some m \<Longrightarrow>
   extract_text_from_pdf print fitz_open plumber_open file_content = Inl (PyException m)"
  by (simp add: extract_by_outputs)

lemmas example_defs = gap_decoder_def gap_document_def broken_decoder_def blank_decoder_def
  cid_decoder_def two_page_decoder_def print_ok_def

lemmas string_defs = of_ascii_def strip_def lstrip_def rstrip_def isspace_def newline_def
  startswith_def

lemmas output_defs = decoder_output_def joined_nonempty_pages_def joined_pages_def
  passes_gate_def

section \<open>Splitting an answer into lines\<close>

lemma split_nl_nonempty: "split_nl s \<noteq> []"
  by (induction s) (auto split: list.splits)

lemma split_nl_snoc:
  "split_nl (s @ [c]) =
     (if c = newline then split_nl s @ [[]]
      else butlast (split_nl s) @ [last (split_nl s) @ [c]])"
proof (induction s)
  case Nil
  then show ?case by simp
next
  case (Cons a s)
  show ?case
  proof (cases "a = newline")
    case True
    with Cons show ?thesis by (simp add: split_nl_nonempty)
  next
    case False
    obtain l ls where l: "split_nl s = l # ls"
      using split_nl_nonempty [of s] by (cases "split_nl s") auto
    obtain l' ls' where l': "split_nl (s @ [c]) = l' # ls'"
      using split_nl_nonempty [of "s @ [c]"] by (cases "split_nl (s @ [c])") auto
    from False Cons l l' show ?thesis
      by (cases "ls = []") (auto split: if_splits)
  qed
qed

lemma strip_space_Cons: "isspace c \<Longrightarrow> strip (c # l) = strip l"
  by (simp add: strip_def lstrip_Cons)

lemma strip_space_snoc: "isspace c \<Longrightarrow> strip (l @ [c]) = strip l"
proof -
  assume c: "isspace c"
  show ?thesis
  proof (cases "\<forall>x\<in>set l. isspace x")
    case True
    with c have "lstrip (l @ [c]) = []" and "lstrip l = []"
      by (simp_all add: lstrip_def)
    then show ?thesis
      by (simp add: strip_def)
  next
    case False
    then have "lstrip (l @ [c]) = lstrip l @ [c]"
      by (auto simp: lstrip_def dropWhile_append)
    with c show ?thesis
      by (simp add: strip_def rstrip_snoc)
  qed
qed

lemma split_questions_space_Cons:
  "isspace c \<Longrightarrow> split_questions (c # s) = split_questions s"
proof (cases "c = newline")
  case True
  then show ?thesis by (simp add: split_questions_def strip_Nil)
next
  case False
  assume "isspace c"
  with False show ?thesis
    using split_nl_nonempty [of s]
    by (cases "split_nl s") (simp_all add: split_questions_def strip_space_Cons)
qed

lemma split_questions_space_snoc:
  "isspace c \<Longrightarrow> split_questions (s @ [c]) = split_questions s"
proof (cases "c = newline")
  case True
  then show ?thesis by (simp add: split_questions_def split_nl_snoc strip_Nil)
next
  case False
  assume c: "isspace c"
  have "split_nl s = butlast (split_nl s) @ [last (split_nl s)]"
    using split_nl_nonempty [of s] by simp
  then have "split_questions s =
      filter (\<lambda>q. q \<noteq> []) (map strip (butlast (split_nl s) @ [last (split_nl s)]))"
    by (simp add: split_questions_def)
  with False c show ?thesis
    by (simp add: split_questions_def split_nl_snoc strip_space_snoc)
qed

lemma split_questions_lstrip: "split_questions (lstrip s) = split_questions s"
  by (induction s) (simp_all add: lstrip_Cons split_questions_space_Cons lstrip_def)

lemma split_questions_rstrip: "split_questions (rstrip s) = split_questions s"
  by (induction s rule: rev_induct)
     (simp_all add: rstrip_Nil rstrip_snoc split_questions_space_snoc)

lemma split_questions_strip: "split_questions (strip s) = split_questions s"
  by (simp add: strip_def split_questions_rstrip split_questions_lstrip)

lemma filter_map_strip:
  "filter (\<lambda>q. q \<noteq> []) (map strip ls) = map strip (filter (\<lambda>l. strip l \<noteq> []) ls)"
  by (induction ls) simp_all

lemma parse_questions_split: "parse_questions response = split_questions response"
proof -
  have "parse_questions response = split_questions (strip response)"
    by (simp add: parse_questions_def split_questions_def filter_map_strip)
  then show ?thesis by (simp add: split_questions_strip)
qed

section \<open>Runs of the operations on the example inputs\<close>

lemmas handler_defs = upload_questions_def questions_body_def upload_summary_def summary_body_def
  test_extract_def extract_body_def validate_pdf_upload_def processing_error_def
  no_file_error_def extension_error_def size_error_def count_error_def
  MAX_FILE_SIZE_BYTES_def MAX_FILE_SIZE_MB_def

lemma oversize_upload_length: "length (content oversize_upload) = 73400321"
  by (simp add: oversize_upload_def)

lemma oversize_upload_name: "endswith (filename oversize_upload) (of_ascii ''.pdf'')"
  by (simp add: oversize_upload_def endswith_def of_ascii_def)

lemma sample_upload_valid: "validate_pdf_upload (Some sample_upload) = Inr ()"
  by (simp add: validate_pdf_upload_def sample_upload_def endswith_def of_ascii_def)

lemma sample_upload_length: "length (content sample_upload) = 4"
  by (simp add: sample_upload_def)

lemma sample_extraction:
  "extract_text_from_pdf print_ok two_page_decoder blank_decoder (content sample_upload) =
     Inr [72, 101, 108, 108, 111, 10, 87, 111, 114, 108, 100]"
  by (simp add: extract_by_outputs example_defs output_defs string_defs)

lemma sample_questions:
  "generate_questions two_line_client [72, 101, 108, 108, 111, 10, 87, 111, 114, 108, 100]
     5 (of_ascii ''English'') = Inr [of_ascii ''Q1?'', of_ascii ''Q2?'']"
  by (simp add: generate_questions_def parse_questions_split two_line_client_def
        split_questions_def string_defs)

lemma sample_summary:
  "generate_summary two_line_client [72, 101, 108, 108, 111, 10, 87, 111, 114, 108, 100]
     (of_ascii ''English'') = Inr (of_ascii ''Q1?'' @ [10, 10, 32] @ of_ascii ''Q2?'')"
  by (simp add: generate_summary_def two_line_client_def string_defs)

lemma sample_questions_run:
  "upload_questions print_ok two_page_decoder blank_decoder two_line_client
     (Some sample_upload) 5 (of_ascii ''English'') =
   ([ReadFile, Extract, Generate],
    Inr [(''success'', JBool True),
         (''filename'', JStr (filename sample_upload)),
         (''questions'', JList [JStr (of_ascii ''Q1?''), JStr (of_ascii ''Q2?'')]),
         (''num_questions'', JInt 5),
         (''language'', JStr (of_ascii ''English'')),
         (''extracted_chars'', JInt 11),
         (''text_preview'', JStr [72, 101, 108, 108, 111, 10, 87, 111, 114, 108, 100])])"
  by (simp add: upload_questions_def questions_body_def sample_upload_valid sample_extraction
        sample_questions sample_upload_length MAX_FILE_SIZE_BYTES_def MAX_FILE_SIZE_MB_def
        text_preview_def)

lemma sample_summary_run:
  "upload_summary print_ok two_page_decoder blank_decoder two_line_client
     (Some sample_upload) (of_ascii ''English'') =
   ([ReadFile, Extract, Generate],
    Inr [(''success'', JBool True),
         (''filename'', JStr (filename sample_upload)),
         (''summary'', JStr (of_ascii ''Q1?'' @ [10, 10, 32] @ of_ascii ''Q2?'')),
         (''language'', JStr (of_ascii ''English'')),
         (''extracted_chars'', JInt 11),
         (''text_preview'', JStr [72, 101, 108, 108, 111, 10, 87, 111, 114, 108, 100])])"
  by (simp add: upload_summary_def summary_body_def sample_upload_valid sample_extraction
        sample_summary sample_upload_length MAX_FILE_SIZE_BYTES_def MAX_FILE_SIZE_MB_def
        text_preview_def)

section \<open>The extraction engine\<close>

text \<open>
  C1, as worded: when the primary decoder succeeds and its trimmed output passes the
  quality gate, the result is the trimmed join of the per-page output in which every
  page, also one with an empty text layer, is followed by a newline. This fails for a
  document with an empty page between two pages of text: the loop skips the empty page,
  so the result is "a\nb" where the join over every page gives "a\n\nb".
\<close>

theorem empty_page_gets_no_newline:
  "gap_decoder [] = Inr gap_document \<and> first_raise gap_document = None \<and>
   passes_gate (joined_pages gap_document) \<and>
   strip (joined_pages gap_document) = [97, 10, 10, 98] \<and>
   extract_text_from_pdf print_ok gap_decoder (broken_decoder []) [] = Inr [97, 10, 98] \<and>
   extract_text_from_pdf print_ok gap_decoder (broken_decoder []) [] \<noteq>
     Inr (strip (joined_pages gap_document))"
  by (simp add: extract_by_outputs example_defs string_defs output_defs)

text \<open>
  C1, amended: when the primary decoder opens the stream, no page raises, and the trimmed
  join of the pages with a non-empty text layer (each followed by a newline) is not empty
  and does not begin with "(cid:", then \<open>extract_text_from_pdf\<close> returns exactly that
  trimmed join, whatever the secondary decoder would do.
\<close>

theorem primary_output_returned:
  assumes "fitz_open file_content = Inr doc"
    and "first_raise doc = None"
    and "passes_gate (joined_nonempty_pages doc)"
  shows "extract_text_from_pdf print fitz_open plumber_open file_content =
           Inr (strip (joined_nonempty_pages doc))"
  using assms by (simp add: extract_by_outputs decoder_output_def)

theorem primary_output_returned_witness:
  "gap_decoder [] = Inr gap_document \<and> first_raise gap_document = None \<and>
   passes_gate (joined_nonempty_pages gap_document) \<and>
   extract_text_from_pdf print_ok gap_decoder (broken_decoder []) [] = Inr [97, 10, 98]"
proof -
  have a: "gap_decoder [] = Inr gap_document"
    by (simp add: gap_decoder_def)
  have b: "first_raise gap_document = None"
    by (simp add: gap_document_def)
  have c: "passes_gate (joined_nonempty_pages gap_document)"
    by (simp add: example_defs string_defs output_defs)
  have d: "strip (joined_nonempty_pages gap_document) = [97, 10, 98]"
    by (simp add: example_defs string_defs output_defs)
  show ?thesis
    using a b c d primary_output_returned
      [of gap_decoder "[]" gap_document print_ok "broken_decoder []"]
    by simp
qed

text \<open>
  C2, as worded: whenever the primary decoder raises, or its trimmed output is empty or
  begins with "(cid:", \<open>extract_text_from_pdf\<close> returns the secondary decoder's trimmed
  output joined with a newline after every page. This fails in three ways, each with the
  primary decoder raising. With the secondary pages "a", "", "b" the result is "a\nb"
  where the join over every page gives "a\n\nb". With a secondary decoder whose trimmed
  output is empty nothing is returned: the function raises. And when the console cannot
  encode the primary's error text, printing the warning raises and the function ends
  with that exception although the secondary decoder has text.
\<close>

theorem fallback_not_always_returned:
  "decoder_output (broken_decoder (of_ascii ''xref'')) [] = Inl (of_ascii ''xref'') \<and>
   gap_decoder [] = Inr gap_document \<and> first_raise gap_document = None \<and>
   strip (joined_pages gap_document) = [97, 10, 10, 98] \<and>
   extract_text_from_pdf print_ok (broken_decoder (of_ascii ''xref'')) gap_decoder [] =
     Inr [97, 10, 98] \<and>
   extract_text_from_pdf print_ok (broken_decoder (of_ascii ''xref'')) gap_decoder [] \<noteq>
     Inr (strip (joined_pages gap_document)) \<and>
   extract_text_from_pdf print_ok (broken_decoder (of_ascii ''xref'')) blank_decoder [] =
     Inl (extraction_error no_text_message) \<and>
   decoder_output (broken_decoder [233]) [] = Inl [233] \<and>
   extract_text_from_pdf ascii_print (broken_decoder [233]) two_page_decoder [] =
     Inl (PyException (of_ascii ''ascii codec cannot encode character''))"
  by (simp add: extract_by_outputs fallback_result_def example_defs string_defs output_defs
        ascii_print_def pymupdf_warning_def)

text \<open>
  C2, amended: when the primary decoder raises and the warning with its error text is
  printed, or when the primary decoder's output is empty after trimming or its trimmed
  form begins with "(cid:", the result of \<open>extract_text_from_pdf\<close> is determined by the
  secondary decoder alone, from a fresh accumulator, and any primary output is
  discarded. Here a decoder's output is the text layers of its pages with a non-empty
  text layer, each followed by a newline. If the secondary decoder succeeds and its
  trimmed output is not empty, exactly that trimmed output is returned; if the secondary
  decoder raises or its trimmed output is empty, the function raises.
\<close>

theorem fallback_output_returned:
  assumes "(\<exists>e. decoder_output fitz_open file_content = Inl e \<and>
                print (pymupdf_warning e) = None) \<or>
           (\<exists>t. decoder_output fitz_open file_content = Inr t \<and>
                (strip t = [] \<or> startswith (strip t) (of_ascii ''(cid:'')))"
  shows "extract_text_from_pdf print fitz_open plumber_open file_content =
           (case decoder_output plumber_open file_content of
              Inl e \<Rightarrow> Inl (extraction_error e)
            | Inr t \<Rightarrow>
                if strip t = [] then Inl (extraction_error no_text_message)
                else Inr (strip t))"
  using assms
  by (auto simp: extract_by_outputs fallback_result_def passes_gate_def)

theorem fallback_output_returned_witness:
  "decoder_output cid_decoder [] = Inr (of_ascii ''(cid:12)(cid:7)'' @ [newline]) \<and>
   startswith (strip (of_ascii ''(cid:12)(cid:7)'' @ [newline])) (of_ascii ''(cid:'') \<and>
   decoder_output gap_decoder [] = Inr [97, 10, 98, 10] \<and>
   extract_text_from_pdf ascii_print cid_decoder gap_decoder [] = Inr [97, 10, 98] \<and>
   decoder_output (broken_decoder (of_ascii ''xref'')) [] = Inl (of_ascii ''xref'') \<and>
   ascii_print (pymupdf_warning (of_ascii ''xref'')) = None \<and>
   extract_text_from_pdf ascii_print (broken_decoder (of_ascii ''xref'')) gap_decoder [] =
     Inr [97, 10, 98]"
proof -
  have a: "decoder_output cid_decoder [] = Inr (of_ascii ''(cid:12)(cid:7)'' @ [newline])"
    by (simp add: example_defs output_defs of_ascii_def)
  have b: "startswith (strip (of_ascii ''(cid:12)(cid:7)'' @ [newline])) (of_ascii ''(cid:'')"
    by (simp add: string_defs)
  have c: "decoder_output gap_decoder [] = Inr [97, 10, 98, 10]"
    by (simp add: example_defs output_defs of_ascii_def newline_def)
  have d: "strip [97, 10, 98, 10] = [97, 10, 98]"
    by (simp add: string_defs)
  have e: "decoder_output (broken_decoder (of_ascii ''xref'')) [] = Inl (of_ascii ''xref'')"
    by (simp add: decoder_output_def broken_decoder_def)
  have f: "ascii_print (pymupdf_warning (of_ascii ''xref'')) = None"
    by (simp add: ascii_print_def pymupdf_warning_def of_ascii_def)
  from a b have h1: "(\<exists>e. decoder_output cid_decoder [] = Inl e \<and>
                ascii_print (pymupdf_warning e) = None) \<or>
           (\<exists>t. decoder_output cid_decoder [] = Inr t \<and>
                (strip t = [] \<or> startswith (strip t) (of_ascii ''(cid:'')))"
    by simp
  from e f have h2: "(\<exists>e. decoder_output (broken_decoder (of_ascii ''xref'')) [] = Inl e \<and>
                ascii_print (pymupdf_warning e) = None) \<or>
           (\<exists>t. decoder_output (broken_decoder (of_ascii ''xref'')) [] = Inr t \<and>
                (strip t = [] \<or> startswith (strip t) (of_ascii ''(cid:'')))"
    by simp
  show ?thesis
    using a b c d e f
      fallback_output_returned [OF h1, of gap_decoder]
      fallback_output_returned [OF h2, of gap_decoder]
    by simp
qed

text \<open>
  C3: when both decoders succeed with output that is empty after trimming,
  \<open>extract_text_from_pdf\<close> raises; and every string it returns is non-empty and
  trimmed: stripping it changes nothing, and neither its first nor its last character
  is whitespace.
\<close>

theorem extract_never_returns_empty:
  "(decoder_output fitz_open file_content = Inr t1 \<and> strip t1 = [] \<and>
    decoder_output plumber_open file_content = Inr t2 \<and> strip t2 = [] \<longrightarrow>
      (\<exists>e. extract_text_from_pdf print fitz_open plumber_open file_content = Inl e)) \<and>
   (extract_text_from_pdf print fitz_open plumber_open file_content = Inr r \<longrightarrow>
      r \<noteq> [] \<and> strip r = r \<and> \<not> isspace (hd r) \<and> \<not> isspace (last r))"
proof (intro conjI impI)
  assume "decoder_output fitz_open file_content = Inr t1 \<and> strip t1 = [] \<and>
    decoder_output plumber_open file_content = Inr t2 \<and> strip t2 = []"
  then show "\<exists>e. extract_text_from_pdf print fitz_open plumber_open file_content = Inl e"
    by (simp add: extract_by_outputs fallback_result_def passes_gate_def)
next
  assume r: "extract_text_from_pdf print fitz_open plumber_open file_content = Inr r"
  then obtain t where t: "r = strip t" "strip t \<noteq> []"
    by (auto simp: extract_by_outputs fallback_result_def passes_gate_def
             split: sum.splits option.splits if_splits)
  then show "r \<noteq> []" by simp
  from t show "strip r = r" by (simp add: strip_idem)
  from t show "\<not> isspace (hd r)" by (simp add: strip_hd)
  from t show "\<not> isspace (last r)" by (simp add: strip_last)
qed

theorem extract_never_returns_empty_witness:
  "(decoder_output blank_decoder [] = Inr [32, 32, 10] \<and> strip [32, 32, 10] = [] \<and>
    decoder_output (\<lambda>c. Inr []) [] = Inr [] \<and> strip [] = [] \<and>
    extract_text_from_pdf print_ok blank_decoder (\<lambda>c. Inr []) [] =
      Inl (extraction_error no_text_message)) \<and>
   (extract_text_from_pdf print_ok two_page_decoder blank_decoder [] =
      Inr [72, 101, 108, 108, 111, 10, 87, 111, 114, 108, 100] \<and>
    \<not> isspace 72 \<and> \<not> isspace 100)"
proof -
  have a: "decoder_output blank_decoder [] = Inr [32, 32, 10]"
    by (simp add: example_defs output_defs of_ascii_def newline_def)
  have b: "strip [32, 32, 10] = []"
    by (simp add: string_defs)
  have c: "decoder_output (\<lambda>c. Inr []) [] = Inr []"
    by (simp add: output_defs)
  have d: "strip [] = []"
    by (simp add: string_defs)
  have e: "extract_text_from_pdf print_ok blank_decoder (\<lambda>c. Inr []) [] =
      Inl (extraction_error no_text_message)"
    by (simp add: extract_by_outputs a b c d passes_gate_def fallback_result_def)
  have f: "extract_text_from_pdf print_ok two_page_decoder blank_decoder [] =
      Inr [72, 101, 108, 108, 111, 10, 87, 111, 114, 108, 100]"
    by (simp add: extract_by_outputs example_defs output_defs string_defs)
  show ?thesis
    using extract_never_returns_empty
            [of blank_decoder "[]" "[32, 32, 10]" "\<lambda>c. Inr []" "[]" print_ok "[]"]
          extract_never_returns_empty
            [of two_page_decoder "[]" "[]" blank_decoder "[]" print_ok
                "[72, 101, 108, 108, 111, 10, 87, 111, 114, 108, 100]"]
          a b c d e f
    by simp
qed

text \<open>
  C4, as worded: when both strategies fail, the failure message aggregates the reasons
  of both. This fails: with the primary decoder raising "xref" and the secondary raising
  "EOF" (and a console that prints every line), the message is
  "Error extracting text from PDF: EOF"; it does not contain the primary's reason, and it
  is the same for any other primary reason.
\<close>

theorem primary_reason_not_in_failure:
  "decoder_output (broken_decoder (of_ascii ''xref'')) [] = Inl (of_ascii ''xref'') \<and>
   decoder_output (broken_decoder (of_ascii ''EOF'')) [] = Inl (of_ascii ''EOF'') \<and>
   extract_text_from_pdf print_ok (broken_decoder (of_ascii ''xref'')) (broken_decoder (of_ascii ''EOF'')) [] =
     Inl (PyException (of_ascii ''Error extracting text from PDF: EOF'')) \<and>
   \<not> contains (of_ascii ''Error extracting text from PDF: EOF'') (of_ascii ''xref'') \<and>
   extract_text_from_pdf print_ok (broken_decoder (of_ascii ''other'')) (broken_decoder (of_ascii ''EOF'')) [] =
     Inl (PyException (of_ascii ''Error extracting text from PDF: EOF''))"
  by (simp add: extract_by_outputs fallback_result_def extraction_error_def example_defs
        output_defs contains_def string_defs upt_rec)

text \<open>
  C4, amended: when the primary strategy fails (it raises and the warning with its error
  text is printed, or its output does not pass the quality gate) and the secondary
  strategy fails too, \<open>extract_text_from_pdf\<close> raises a single exception whose message
  is "Error extracting text from PDF: " followed by the reason of the secondary strategy
  only: the text of the secondary decoder's error when it raised, and the fixed no-text
  message (image-based or scanned PDF) when its trimmed output is empty. The primary
  strategy's reason is not part of the message.
\<close>

theorem failure_reports_secondary_reason:
  assumes "(\<exists>e. decoder_output fitz_open file_content = Inl e \<and>
                print (pymupdf_warning e) = None) \<or>
           (\<exists>t. decoder_output fitz_open file_content = Inr t \<and> \<not> passes_gate t)"
  shows "(decoder_output plumber_open file_content = Inl e2 \<longrightarrow>
            extract_text_from_pdf print fitz_open plumber_open file_content =
              Inl (PyException (of_ascii ''Error extracting text from PDF: '' @ e2))) \<and>
         (decoder_output plumber_open file_content = Inr t2 \<and> strip t2 = [] \<longrightarrow>
            extract_text_from_pdf print fitz_open plumber_open file_content =
              Inl (PyException (of_ascii ''Error extracting text from PDF: '' @ no_text_message)))"
  using assms
  by (auto simp: extract_by_outputs fallback_result_def extraction_error_def)

theorem failure_reports_secondary_reason_witness:
  "decoder_output (broken_decoder (of_ascii ''xref'')) [] = Inl (of_ascii ''xref'') \<and>
   ascii_print (pymupdf_warning (of_ascii ''xref'')) = None \<and>
   decoder_output (broken_decoder (of_ascii ''EOF'')) [] = Inl (of_ascii ''EOF'') \<and>
   extract_text_from_pdf ascii_print (broken_decoder (of_ascii ''xref''))
       (broken_decoder (of_ascii ''EOF'')) [] =
     Inl (PyException (of_ascii ''Error extracting text from PDF: '' @ of_ascii ''EOF'')) \<and>
   decoder_output blank_decoder [] = Inr [32, 32, 10] \<and> strip [32, 32, 10] = [] \<and>
   extract_text_from_pdf ascii_print (broken_decoder (of_ascii ''xref'')) blank_decoder [] =
     Inl (PyException (of_ascii ''Error extracting text from PDF: '' @ no_text_message))"
proof -
  have a: "decoder_output (broken_decoder (of_ascii ''xref'')) [] = Inl (of_ascii ''xref'')"
    by (simp add: decoder_output_def broken_decoder_def)
  have p: "ascii_print (pymupdf_warning (of_ascii ''xref'')) = None"
    by (simp add: ascii_print_def pymupdf_warning_def of_ascii_def)
  have b: "decoder_output (broken_decoder (of_ascii ''EOF'')) [] = Inl (of_ascii ''EOF'')"
    by (simp add: decoder_output_def broken_decoder_def)
  have c: "decoder_output blank_decoder [] = Inr [32, 32, 10]"
    by (simp add: example_defs output_defs of_ascii_def newline_def)
  have d: "strip [32, 32, 10] = []"
    by (simp add: string_defs)
  from a p have h: "(\<exists>e. decoder_output (broken_decoder (of_ascii ''xref'')) [] = Inl e \<and>
        ascii_print (pymupdf_warning e) = None) \<or>
      (\<exists>t. decoder_output (broken_decoder (of_ascii ''xref'')) [] = Inr t \<and> \<not> passes_gate t)"
    by simp
  show ?thesis
    using a p b c d
      failure_reports_secondary_reason
        [OF h, of "broken_decoder (of_ascii ''EOF'')" "of_ascii ''EOF''" "[]"]
      failure_reports_secondary_reason
        [OF h, of blank_decoder "[]" "[32, 32, 10]"]
    by simp
qed

section \<open>The request handler\<close>

text \<open>
  C5, as worded: a question request is validated in the order file supplied, PDF
  extension, size limit, question count, and the first failing validation is the one
  reported. This fails for an upload above the size limit with a question count of 0:
  along the worded order the size limit is the first violated constraint, but the
  operation reports the question count.
\<close>

theorem count_checked_before_size:
  "first_violation spec_order (Some oversize_upload) 0 = Some SizeLimit \<and>
   snd (upload_questions print_ok two_page_decoder blank_decoder two_line_client
          (Some oversize_upload) 0 (of_ascii ''English'')) = Inl (constraint_error CountRange) \<and>
   constraint_error CountRange \<noteq> constraint_error SizeLimit"
proof -
  have "constraint_error CountRange \<noteq> constraint_error SizeLimit"
    by (simp add: count_error_def size_error_def of_ascii_def)
  then show ?thesis
    by (simp add: first_violation_def spec_order_def handler_defs oversize_upload_length
          oversize_upload_name)
qed

text \<open>
  C5, amended: a question request is validated in the order (a) a file was supplied,
  (b) the filename ends in ".pdf", (d) the question count is within 1 to 50, (c) the byte
  length is at most 70 MiB. On the first failing validation the operation raises the
  bad-request error of that constraint, and \<open>extract_text_from_pdf\<close> is not called.
\<close>

theorem questions_validation_order:
  "first_violation questions_order upload n = Some c \<longrightarrow>
     snd (upload_questions print fitz_open plumber_open client upload n language) =
       Inl (constraint_error c) \<and>
     Extract \<notin> set (fst (upload_questions print fitz_open plumber_open client upload n language))"
  by (cases upload)
     (auto simp: first_violation_def questions_order_def handler_defs split: if_splits)

theorem questions_validation_order_witness:
  "first_violation questions_order (Some oversize_upload) 5 = Some SizeLimit \<and>
   snd (upload_questions print_ok two_page_decoder blank_decoder two_line_client
          (Some oversize_upload) 5 (of_ascii ''English'')) = Inl size_error \<and>
   Extract \<notin> set (fst (upload_questions print_ok two_page_decoder blank_decoder two_line_client
          (Some oversize_upload) 5 (of_ascii ''English'')))"
proof -
  have a: "first_violation questions_order (Some oversize_upload) 5 = Some SizeLimit"
    by (simp add: first_violation_def questions_order_def oversize_upload_length
          oversize_upload_name)
  show ?thesis
    using a questions_validation_order
      [of "Some oversize_upload" 5 SizeLimit print_ok two_page_decoder blank_decoder two_line_client
          "of_ascii ''English''"]
    by simp
qed

text \<open>
  The two upload operations reject an upload above 70 MiB with status 400 and without
  calling \<open>extract_text_from_pdf\<close>.
\<close>

lemma oversize_rejected_by_uploads:
  "upload = Some f \<Longrightarrow> length (content f) > 70 * 1024 * 1024 \<Longrightarrow>
   (\<exists>d. snd (upload_summary print fitz_open plumber_open client upload language) =
          Inl (HTTPException 400 d)) \<and>
   Extract \<notin> set (fst (upload_summary print fitz_open plumber_open client upload language)) \<and>
   (\<exists>d. snd (upload_questions print fitz_open plumber_open client upload n language) =
          Inl (HTTPException 400 d)) \<and>
   Extract \<notin> set (fst (upload_questions print fitz_open plumber_open client upload n language))"
  by (auto simp: handler_defs)

text \<open>
  C6: every operation rejects an upload above 70 MiB with a bad-request signal before
  extraction. The extract-only operation does not: for an upload of 70 MiB plus one byte
  it stops before extraction, but its only handler clause catches the status-400
  exception it has just raised and raises status 500 in its place.
\<close>

theorem test_extract_oversize_status_500:
  "test_extract print http_str fitz_open plumber_open (Some oversize_upload) =
     ([ReadFile],
      Inl (HTTPException 500
             (of_ascii ''Error: '' @ http_str 400 (of_ascii ''File size exceeds 70 MB limit''))))"
  by (simp add: handler_defs oversize_upload_length oversize_upload_name str_exn_def)

text \<open>
  C7: the preview is the first 200 characters followed by "..." when the extracted text
  is longer than 200 characters, and the extracted text itself otherwise; the field
  \<open>text_preview\<close> of a success response of the summary and of the questions operation is
  the preview of the text that \<open>extract_text_from_pdf\<close> returned for the upload.
\<close>

theorem text_preview_first_200:
  "(length t > 200 \<longrightarrow> text_preview t = take 200 t @ of_ascii ''...'') \<and>
   (length t \<le> 200 \<longrightarrow> text_preview t = t) \<and>
   (upload_summary print fitz_open plumber_open client upload language = (evs, Inr response) \<longrightarrow>
      (\<exists>f x. upload = Some f \<and>
             extract_text_from_pdf print fitz_open plumber_open (content f) = Inr x \<and>
             map_of response ''text_preview'' = Some (JStr (text_preview x)))) \<and>
   (upload_questions print fitz_open plumber_open client upload n language = (evs', Inr response') \<longrightarrow>
      (\<exists>f x. upload = Some f \<and>
             extract_text_from_pdf print fitz_open plumber_open (content f) = Inr x \<and>
             map_of response' ''text_preview'' = Some (JStr (text_preview x))))"
proof (intro conjI impI)
  show "length t > 200 \<Longrightarrow> text_preview t = take 200 t @ of_ascii ''...''"
    by (simp add: text_preview_def)
  show "length t \<le> 200 \<Longrightarrow> text_preview t = t"
    by (simp add: text_preview_def)
next
  assume "upload_summary print fitz_open plumber_open client upload language = (evs, Inr response)"
  then show "\<exists>f x. upload = Some f \<and>
             extract_text_from_pdf print fitz_open plumber_open (content f) = Inr x \<and>
             map_of response ''text_preview'' = Some (JStr (text_preview x))"
    by (auto simp: upload_summary_def summary_body_def Let_def
             split: sum.splits option.splits if_splits)
next
  assume "upload_questions print fitz_open plumber_open client upload n language =
            (evs', Inr response')"
  then show "\<exists>f x. upload = Some f \<and>
             extract_text_from_pdf print fitz_open plumber_open (content f) = Inr x \<and>
             map_of response' ''text_preview'' = Some (JStr (text_preview x))"
    by (auto simp: upload_questions_def questions_body_def Let_def
             split: sum.splits option.splits if_splits)
qed

theorem text_preview_first_200_witness:
  "length (replicate 201 (97::nat)) > 200 \<and>
   text_preview (replicate 201 97) = replicate 200 97 @ of_ascii ''...'' \<and>
   length [72, 101, 108, 108, 111, 10, 87, 111, 114, 108, 100::nat] \<le> 200 \<and>
   text_preview [72, 101, 108, 108, 111, 10, 87, 111, 114, 108, 100] =
     [72, 101, 108, 108, 111, 10, 87, 111, 114, 108, 100] \<and>
   (\<exists>response. upload_summary print_ok two_page_decoder blank_decoder two_line_client
        (Some sample_upload) (of_ascii ''English'') = ([ReadFile, Extract, Generate], Inr response) \<and>
      map_of response ''text_preview'' =
        Some (JStr (text_preview [72, 101, 108, 108, 111, 10, 87, 111, 114, 108, 100]))) \<and>
   (\<exists>response. upload_questions print_ok two_page_decoder blank_decoder two_line_client
        (Some sample_upload) 5 (of_ascii ''English'') = ([ReadFile, Extract, Generate], Inr response) \<and>
      map_of response ''text_preview'' =
        Some (JStr (text_preview [72, 101, 108, 108, 111, 10, 87, 111, 114, 108, 100])))"
proof -
  let ?long = "replicate 201 (97::nat)"
  let ?short = "[72, 101, 108, 108, 111, 10, 87, 111, 114, 108, 100::nat]"
  note long = text_preview_first_200 [of ?long]
  note short = text_preview_first_200
      [of ?short print_ok two_page_decoder blank_decoder two_line_client "Some sample_upload"
          "of_ascii ''English''" "[ReadFile, Extract, Generate]" _ 5
          "[ReadFile, Extract, Generate]"]
  have a: "length ?long > 200" "length ?short \<le> 200"
    by simp_all
  have b: "text_preview ?long = replicate 200 97 @ of_ascii ''...''"
    using long a by simp
  have c: "text_preview ?short = ?short"
    using short a by simp
  show ?thesis
    using a b c short sample_summary_run sample_questions_run sample_extraction
    by simp
qed

text \<open>
  C8: when the collaborator answers with a response string, \<open>generate_questions\<close>
  returns the list obtained by splitting the response at newlines, stripping every line
  and removing the blank ones; that list is the stripped forms of the non-blank lines,
  all of them, in their original order.
\<close>

theorem questions_split_on_newlines:
  "(client (QuestionsPrompt n language (take 16000 t)) = Inr response \<longrightarrow>
      generate_questions client t n language = Inr (split_questions response)) \<and>
   split_questions response = map strip (filter (\<lambda>l. strip l \<noteq> []) (split_nl response))"
  by (simp add: generate_questions_def parse_questions_split split_questions_def filter_map_strip)

theorem questions_split_on_newlines_witness:
  "two_line_client (QuestionsPrompt 2 [] (take 16000 [97])) =
     Inr (of_ascii '' Q1?'' @ [newline, newline] @ of_ascii '' Q2? '' @ [newline]) \<and>
   generate_questions two_line_client [97] 2 [] = Inr [of_ascii ''Q1?'', of_ascii ''Q2?'']"
proof -
  have a: "two_line_client (QuestionsPrompt 2 [] (take 16000 [97])) =
     Inr (of_ascii '' Q1?'' @ [newline, newline] @ of_ascii '' Q2? '' @ [newline])"
    by (simp add: two_line_client_def)
  have b: "split_questions (of_ascii '' Q1?'' @ [newline, newline] @ of_ascii '' Q2? '' @ [newline])
     = [of_ascii ''Q1?'', of_ascii ''Q2?'']"
    by (simp add: split_questions_def string_defs)
  show ?thesis
    using a b questions_split_on_newlines [of two_line_client 2 "[]" "[97]"
        "of_ascii '' Q1?'' @ [newline, newline] @ of_ascii '' Q2? '' @ [newline]"]
    by simp
qed

text \<open>
  C9: \<open>validate_pdf_upload\<close> accepts an upload exactly when its filename ends with the
  lowercase string ".pdf". A filename ending in any other four characters, ".PDF" among
  them, is rejected with status 400.
\<close>

theorem pdf_extension_case_sensitive:
  "(validate_pdf_upload upload = Inr () \<longleftrightarrow>
      (\<exists>f. upload = Some f \<and> endswith (filename f) (of_ascii ''.pdf''))) \<and>
   (length ext = 4 \<and> ext \<noteq> of_ascii ''.pdf'' \<longrightarrow>
      validate_pdf_upload (Some (f\<lparr>filename := base @ ext\<rparr>)) =
        Inl (HTTPException 400 (of_ascii ''Only PDF files are allowed''))) \<and>
   validate_pdf_upload (Some (f\<lparr>filename := base @ of_ascii ''.PDF''\<rparr>)) =
     Inl (HTTPException 400 (of_ascii ''Only PDF files are allowed''))"
  by (auto simp: validate_pdf_upload_def endswith_def of_ascii_def extension_error_def
        no_file_error_def split: option.splits)

theorem pdf_extension_case_sensitive_witness:
  "endswith (filename sample_upload) (of_ascii ''.pdf'') \<and>
   validate_pdf_upload (Some sample_upload) = Inr () \<and>
   length (of_ascii ''.Pdf'') = 4 \<and> of_ascii ''.Pdf'' \<noteq> of_ascii ''.pdf'' \<and>
   validate_pdf_upload (Some (sample_upload\<lparr>filename := of_ascii ''notes'' @ of_ascii ''.Pdf''\<rparr>)) =
     Inl (HTTPException 400 (of_ascii ''Only PDF files are allowed'')) \<and>
   validate_pdf_upload (Some (sample_upload\<lparr>filename := of_ascii ''notes'' @ of_ascii ''.PDF''\<rparr>)) =
     Inl (HTTPException 400 (of_ascii ''Only PDF files are allowed''))"
proof -
  have a: "endswith (filename sample_upload) (of_ascii ''.pdf'')"
    by (simp add: sample_upload_def endswith_def of_ascii_def)
  have b: "length (of_ascii ''.Pdf'') = 4" "of_ascii ''.Pdf'' \<noteq> of_ascii ''.pdf''"
    by (simp_all add: of_ascii_def)
  show ?thesis
    using a b pdf_extension_case_sensitive
      [where upload = "Some sample_upload" and ext = "of_ascii ''.Pdf''"
         and f = sample_upload and base = "of_ascii ''notes''"]
    by simp
qed

text \<open>
  C10: the field \<open>num_questions\<close> of a success response of the questions operation is the
  request parameter. Nothing relates it to the number of questions returned: there is a
  request whose success response carries a questions list of a length different from
  its \<open>num_questions\<close> field.
\<close>

theorem num_questions_echoed:
  "(upload_questions print fitz_open plumber_open client upload n language = (evs, Inr response) \<longrightarrow>
      map_of response ''num_questions'' = Some (JInt n)) \<and>
   (\<exists>print' fitz_open' plumber_open' client' upload' n' language' evs' response' qs.
      upload_questions print' fitz_open' plumber_open' client' upload' n' language' =
        (evs', Inr response') \<and>
      map_of response' ''questions'' = Some (JList qs) \<and>
      map_of response' ''num_questions'' = Some (JInt n') \<and>
      int (length qs) \<noteq> n')"
proof (intro conjI impI)
  assume "upload_questions print fitz_open plumber_open client upload n language =
            (evs, Inr response)"
  then show "map_of response ''num_questions'' = Some (JInt n)"
    by (auto simp: upload_questions_def questions_body_def Let_def
             split: sum.splits option.splits if_splits)
next
  let ?qs = "[JStr (of_ascii ''Q1?''), JStr (of_ascii ''Q2?'')]"
  let ?response = "[(''success'', JBool True),
         (''filename'', JStr (filename sample_upload)),
         (''questions'', JList ?qs),
         (''num_questions'', JInt 5),
         (''language'', JStr (of_ascii ''English'')),
         (''extracted_chars'', JInt 11),
         (''text_preview'', JStr [72, 101, 108, 108, 111, 10, 87, 111, 114, 108, 100])]"
  have m: "map_of ?response ''questions'' = Some (JList ?qs)"
      "map_of ?response ''num_questions'' = Some (JInt 5)"
      "int (length ?qs) \<noteq> 5"
    by simp_all
  from sample_questions_run m
  show "\<exists>print' fitz_open' plumber_open' client' upload' n' language' evs' response' qs.
      upload_questions print' fitz_open' plumber_open' client' upload' n' language' =
        (evs', Inr response') \<and>
      map_of response' ''questions'' = Some (JList qs) \<and>
      map_of response' ''num_questions'' = Some (JInt n') \<and>
      int (length qs) \<noteq> n'"
    by blast
qed

theorem num_questions_echoed_witness:
  "\<exists>response. upload_questions print_ok two_page_decoder blank_decoder two_line_client
       (Some sample_upload) 5 (of_ascii ''English'') =
       ([ReadFile, Extract, Generate], Inr response) \<and>
     map_of response ''num_questions'' = Some (JInt 5) \<and>
     map_of response ''questions'' =
       Some (JList [JStr (of_ascii ''Q1?''), JStr (of_ascii ''Q2?'')])"
  using sample_questions_run
    num_questions_echoed [of print_ok two_page_decoder blank_decoder two_line_client
      "Some sample_upload" 5 "of_ascii ''English''" "[ReadFile, Extract, Generate]"]
  by simp

end
